theory Spec2Isabelle
  imports Complex_Main
begin

section \<open>The combined retry strategy (strands/event\_loop/\_tool\_and\_model\_retry.py)\<close>

text \<open>
  A shallow embedding of the class \<open>ToolAndModelRetryStrategy\<close>. The object \<open>self\<close> is a
  record that every handler receives and returns; the hook events are records whose
  \<open>retry\<close> flag the handlers set. Python's \<open>int\<close> is \<open>int\<close>. A finite \<open>float\<close> is modelled as
  the real number it denotes; the one exception that the delay arithmetic raises, the
  \<open>OverflowError\<close> of converting \<open>2 ** attempt\<close> to a float, is a branch of the model. A
  handler is a coroutine whose only suspension point is \<open>await asyncio.sleep(delay)\<close>; it is
  modelled as a value of type \<open>task\<close> that shows the state reached at the sleep and the code
  that runs after it, or the exception that ended it.
\<close>

subsection \<open>Data model\<close>

datatype py_exception =
    ModelThrottledException string
  | RuntimeError string
  | OverflowError string
  | OtherException string string

datatype error = ValueError string

datatype EventLoopThrottleEvent = EventLoopThrottleEvent (delay: int)

datatype ModelStopResponse = ModelStopResponse (stop_reason: string)

text \<open>An entry of a tool result's \<open>content\<close> list: a dict, with the value stored under the
  key \<open>"text"\<close> when that key is present, or anything that is not a dict.\<close>

datatype content_item = DictItem "string option" | NonDictItem

text \<open>The dict \<open>event.tool_use\<close>; both keys are read with \<open>.get\<close>, so both may be absent.\<close>

record tool_use_dict =
  toolUseId :: "string option"
  name :: "string option"

text \<open>The dict \<open>event.result\<close>.\<close>

record tool_result =
  status :: "string option"
  content :: "content_item list option"

text \<open>The fields that \<open>AfterModelCallEvent\<close> and \<open>AfterToolCallEvent\<close> have in common.\<close>

record hook_event =
  exception :: "py_exception option"
  retry :: bool

record AfterModelCallEvent = hook_event +
  stop_response :: "ModelStopResponse option"

record AfterToolCallEvent = hook_event +
  tool_use :: tool_use_dict
  result :: tool_result

datatype AfterInvocationEvent = AfterInvocationEvent

text \<open>A value of \<open>tool_configs\<close>: a dict with the optional keys \<open>max_attempts\<close>,
  \<open>initial_delay\<close> and \<open>max_delay\<close>.\<close>

record tool_config =
  max_attempts :: "int option"
  initial_delay :: "real option"
  max_delay :: "real option"

text \<open>The keyword arguments of \<open>__init__\<close>.\<close>

record init_kwargs =
  model_max_attempts_arg :: int
  model_initial_delay_arg :: real
  model_max_delay_arg :: real
  tool_max_attempts_arg :: int
  tool_initial_delay_arg :: real
  tool_max_delay_arg :: real
  tool_should_retry_arg :: "(py_exception \<Rightarrow> bool) option"
  tool_configs_arg :: "(string \<rightharpoonup> tool_config) option"
  tool_enabled_tools_arg :: "string list option"
  tool_disabled_tools_arg :: "string list option"

text \<open>The attributes of \<open>self\<close> (the source writes them with a leading underscore).\<close>

record ToolAndModelRetryStrategy =
  model_max_attempts :: int
  model_initial_delay :: real
  model_max_delay :: real
  model_current_attempt :: int
  tool_max_attempts :: int
  tool_initial_delay :: real
  tool_max_delay :: real
  tool_should_retry :: "(py_exception \<Rightarrow> bool) option"
  tool_configs :: "string \<rightharpoonup> tool_config"
  tool_enabled_tools :: "string set option"
  tool_disabled_tools :: "string set option"
  tool_attempts :: "string \<rightharpoonup> int"
  backwards_compatible_event_to_yield :: "EventLoopThrottleEvent option"

subsection \<open>Coroutines with one suspension point\<close>

text \<open>
  \<open>Done s\<close>: the handler returned without sleeping, leaving the state \<open>s\<close> (the pair of
  \<open>self\<close> and the event). \<open>Sleep d s k\<close>: the handler reached \<open>await asyncio.sleep(d)\<close> with
  the state \<open>s\<close>; when the sleep ends it runs \<open>k\<close> on the state it finds and returns.
  \<open>Raised e s\<close>: the handler raised \<open>e\<close> without sleeping, having brought the state to \<open>s\<close>.
\<close>

datatype 's task = Done 's | Sleep real 's "'s \<Rightarrow> 's" | Raised py_exception 's

text \<open>The state that the handler leaves behind when nothing interrupts it.\<close>

fun run_to_completion :: "'s task \<Rightarrow> 's" where
  "run_to_completion (Done s) = s"
| "run_to_completion (Sleep d s k) = k s"
| "run_to_completion (Raised e s) = s"




subsection \<open>Python arithmetic\<close>

text \<open>\<open>2 ** attempt\<close> for an \<open>int\<close> exponent (a negative exponent gives a float).\<close>

definition py_pow2 :: "int \<Rightarrow> real" where
  "py_pow2 k = (if 0 \<le> k then 2 ^ nat k else 1 / 2 ^ nat (- k))"

text \<open>\<open>x * (2 ** attempt)\<close> for a float \<open>x\<close>. For \<open>attempt \<ge> 0\<close> the power is an \<open>int\<close>, which the
  multiplication first converts to a float: from \<open>2 ** 1024\<close> on that conversion raises
  \<open>OverflowError\<close>.\<close>

definition float_times_pow2 :: "real \<Rightarrow> int \<Rightarrow> py_exception + real" where
  "float_times_pow2 x attempt =
     (if 1024 \<le> attempt then Inl (OverflowError ''int too large to convert to float'')
      else Inr (x * py_pow2 attempt))"

text \<open>\<open>int(x)\<close> for a float: truncation towards zero.\<close>

definition py_int :: "real \<Rightarrow> int" where
  "py_int x = (if 0 \<le> x then \<lfloor>x\<rfloor> else \<lceil>x\<rceil>)"

subsection \<open>Construction\<close>

definition default_kwargs :: init_kwargs where
  "default_kwargs = \<lparr>
     model_max_attempts_arg = 6,
     model_initial_delay_arg = 4,
     model_max_delay_arg = 240,
     tool_max_attempts_arg = 0,
     tool_initial_delay_arg = 1,
     tool_max_delay_arg = 30,
     tool_should_retry_arg = None,
     tool_configs_arg = None,
     tool_enabled_tools_arg = None,
     tool_disabled_tools_arg = None \<rparr>"

text \<open>\<open>set(xs) if xs else None\<close>: an empty list is falsy.\<close>

definition set_if_truthy :: "string list option \<Rightarrow> string set option" where
  "set_if_truthy xs =
     (case xs of None \<Rightarrow> None | Some l \<Rightarrow> (if l = [] then None else Some (set l)))"

text \<open>The assignments of \<open>__init__\<close>, which run when its guard has not raised.\<close>

definition init_fields :: "init_kwargs \<Rightarrow> ToolAndModelRetryStrategy" where
  "init_fields kw = \<lparr>
     model_max_attempts = model_max_attempts_arg kw,
     model_initial_delay = model_initial_delay_arg kw,
     model_max_delay = model_max_delay_arg kw,
     model_current_attempt = 0,
     tool_max_attempts = tool_max_attempts_arg kw,
     tool_initial_delay = tool_initial_delay_arg kw,
     tool_max_delay = tool_max_delay_arg kw,
     tool_should_retry = tool_should_retry_arg kw,
     tool_configs = (case tool_configs_arg kw of None \<Rightarrow> Map.empty | Some c \<Rightarrow> c),
     tool_enabled_tools = set_if_truthy (tool_enabled_tools_arg kw),
     tool_disabled_tools = set_if_truthy (tool_disabled_tools_arg kw),
     tool_attempts = Map.empty,
     backwards_compatible_event_to_yield = None \<rparr>"

definition init :: "init_kwargs \<Rightarrow> error + ToolAndModelRetryStrategy" where
  "init kw =
     (if tool_enabled_tools_arg kw \<noteq> None \<and> tool_disabled_tools_arg kw \<noteq> None
      then Inl (ValueError ''Cannot specify both tool_enabled_tools and tool_disabled_tools'')
      else Inr (init_fields kw))"

subsection \<open>Model retry logic\<close>

definition calculate_model_delay ::
  "ToolAndModelRetryStrategy \<Rightarrow> int \<Rightarrow> py_exception + real" where
  "calculate_model_delay self attempt =
     (case float_times_pow2 (model_initial_delay self) attempt of
        Inl e \<Rightarrow> Inl e
      | Inr delay' \<Rightarrow> Inr (min delay' (model_max_delay self)))"

fun is_ModelThrottledException :: "py_exception option \<Rightarrow> bool" where
  "is_ModelThrottledException (Some (ModelThrottledException m)) = True"
| "is_ModelThrottledException e = False"

definition handle_after_model_call ::
  "ToolAndModelRetryStrategy \<Rightarrow> AfterModelCallEvent
     \<Rightarrow> (ToolAndModelRetryStrategy \<times> AfterModelCallEvent) task" where
  "handle_after_model_call self event =
     (if retry event then Done (self, event)
      else if stop_response event \<noteq> None then
        Done (self\<lparr>model_current_attempt := 0,
                   backwards_compatible_event_to_yield := None\<rparr>, event)
      else if \<not> is_ModelThrottledException (exception event) then
        Done (self\<lparr>model_current_attempt := 0,
                   backwards_compatible_event_to_yield := None\<rparr>, event)
      else if model_current_attempt self \<ge> model_max_attempts self then Done (self, event)
      else
        (case calculate_model_delay self (model_current_attempt self) of
           Inl e \<Rightarrow> Raised e (self, event)
         | Inr delay' \<Rightarrow>
             Sleep delay' (self, event)
               (\<lambda>(self, event).
                  (self\<lparr>backwards_compatible_event_to_yield :=
                           Some (EventLoopThrottleEvent (py_int delay')),
                         model_current_attempt := model_current_attempt self + 1\<rparr>,
                   event\<lparr>retry := True\<rparr>))))"

subsection \<open>Tool retry logic\<close>

definition get_tool_config ::
  "ToolAndModelRetryStrategy \<Rightarrow> string \<Rightarrow> int \<times> real \<times> real" where
  "get_tool_config self tool_name =
     (let tool_config = (case tool_configs self tool_name of
                           None \<Rightarrow> \<lparr>max_attempts = None, initial_delay = None, max_delay = None\<rparr>
                         | Some c \<Rightarrow> c)
      in (case max_attempts tool_config of None \<Rightarrow> tool_max_attempts self | Some m \<Rightarrow> m,
          case initial_delay tool_config of None \<Rightarrow> tool_initial_delay self | Some d \<Rightarrow> d,
          case max_delay tool_config of None \<Rightarrow> tool_max_delay self | Some d \<Rightarrow> d))"

definition is_tool_retry_enabled :: "ToolAndModelRetryStrategy \<Rightarrow> string \<Rightarrow> bool" where
  "is_tool_retry_enabled self tool_name =
     (if tool_max_attempts self \<le> 0 \<and>
         (case tool_configs self tool_name of
            None \<Rightarrow> 0
          | Some c \<Rightarrow> (case max_attempts c of None \<Rightarrow> 0 | Some m \<Rightarrow> m)) \<le> 0
      then False
      else (case tool_enabled_tools self of
              Some enabled \<Rightarrow> tool_name \<in> enabled
            | None \<Rightarrow>
                (case tool_disabled_tools self of
                   Some disabled \<Rightarrow> tool_name \<notin> disabled
                 | None \<Rightarrow> True)))"

definition calculate_tool_delay :: "int \<Rightarrow> real \<Rightarrow> real \<Rightarrow> py_exception + real" where
  "calculate_tool_delay attempt initial_delay' max_delay' =
     (case float_times_pow2 initial_delay' attempt of
        Inl e \<Rightarrow> Inl e
      | Inr delay' \<Rightarrow> Inr (min delay' max_delay'))"

definition is_tool_error_result :: "AfterToolCallEvent \<Rightarrow> bool" where
  "is_tool_error_result event =
     (if exception event \<noteq> None then True
      else if status (result event) = Some ''error'' then True
      else False)"

text \<open>The loop over \<open>content\<close>: the text of the first dict that has the key \<open>"text"\<close>, and
  the empty string when there is none.\<close>

fun find_error_text :: "content_item list \<Rightarrow> string" where
  "find_error_text [] = ''''"
| "find_error_text (DictItem (Some t) # rest) = t"
| "find_error_text (item # rest) = find_error_text rest"

definition get_tool_error_for_predicate :: "AfterToolCallEvent \<Rightarrow> py_exception option" where
  "get_tool_error_for_predicate event =
     (case exception event of
        Some e \<Rightarrow> Some e
      | None \<Rightarrow>
          if status (result event) = Some ''error'' then
            (let content' = (case content (result event) of None \<Rightarrow> [] | Some c \<Rightarrow> c);
                 error_text = find_error_text content'
             in Some (RuntimeError
                        (if error_text \<noteq> '''' then error_text
                         else ''Tool returned error status'')))
          else None)"

text \<open>\<open>str(event.tool_use.get("toolUseId", ""))\<close> and \<open>event.tool_use.get("name", "")\<close>.\<close>

definition tool_use_id_of :: "AfterToolCallEvent \<Rightarrow> string" where
  "tool_use_id_of event = (case toolUseId (tool_use event) of None \<Rightarrow> '''' | Some i \<Rightarrow> i)"

definition tool_name_of :: "AfterToolCallEvent \<Rightarrow> string" where
  "tool_name_of event = (case name (tool_use event) of None \<Rightarrow> '''' | Some n \<Rightarrow> n)"

text \<open>The test \<open>should_retry is not None and error is not None and not should_retry(error)\<close>.\<close>

definition predicate_rejects :: "ToolAndModelRetryStrategy \<Rightarrow> py_exception option \<Rightarrow> bool" where
  "predicate_rejects self error =
     (case tool_should_retry self of
        None \<Rightarrow> False
      | Some should_retry \<Rightarrow> (case error of None \<Rightarrow> False | Some e \<Rightarrow> \<not> should_retry e))"

definition handle_after_tool_call ::
  "ToolAndModelRetryStrategy \<Rightarrow> AfterToolCallEvent
     \<Rightarrow> (ToolAndModelRetryStrategy \<times> AfterToolCallEvent) task" where
  "handle_after_tool_call self event =
     (let tool_use_id = tool_use_id_of event;
          tool_name = tool_name_of event
      in if retry event then Done (self, event)
         else if \<not> is_tool_retry_enabled self tool_name then Done (self, event)
         else
           (case get_tool_config self tool_name of
              (max_attempts', initial_delay', max_delay') \<Rightarrow>
                let current_attempt =
                      (case tool_attempts self tool_use_id of None \<Rightarrow> 0 | Some c \<Rightarrow> c)
                in if \<not> is_tool_error_result event then
                     Done (self\<lparr>tool_attempts := (tool_attempts self)(tool_use_id := None)\<rparr>,
                           event)
                   else
                     let error = get_tool_error_for_predicate event
                     in if predicate_rejects self error then Done (self, event)
                        else
                          let current_attempt = current_attempt + 1;
                              self = self\<lparr>tool_attempts :=
                                            (tool_attempts self)(tool_use_id \<mapsto> current_attempt)\<rparr>
                          in if current_attempt \<ge> max_attempts' then Done (self, event)
                             else
                               (case calculate_tool_delay (current_attempt - 1)
                                       initial_delay' max_delay' of
                                  Inl e \<Rightarrow> Raised e (self, event)
                                | Inr delay' \<Rightarrow>
                                    Sleep delay' (self, event)
                                      (\<lambda>(self, event). (self, event\<lparr>retry := True\<rparr>)))))"

subsection \<open>Common logic\<close>

definition reset_state :: "ToolAndModelRetryStrategy \<Rightarrow> ToolAndModelRetryStrategy" where
  "reset_state self =
     self\<lparr>model_current_attempt := 0,
          backwards_compatible_event_to_yield := None,
          tool_attempts := Map.empty\<rparr>"

definition handle_after_invocation ::
  "ToolAndModelRetryStrategy \<Rightarrow> AfterInvocationEvent \<Rightarrow> ToolAndModelRetryStrategy" where
  "handle_after_invocation self event = reset_state self"

text \<open>A sequence of after-tool-call events, each handled to the end before the next one
  arrives; the result is the final \<open>self\<close> and every event as its handler left it (a
  handler that raised leaves the state it had reached).\<close>

fun handle_tool_events ::
  "ToolAndModelRetryStrategy \<Rightarrow> AfterToolCallEvent list
     \<Rightarrow> ToolAndModelRetryStrategy \<times> AfterToolCallEvent list" where
  "handle_tool_events self [] = (self, [])"
| "handle_tool_events self (event # events) =
     (case run_to_completion (handle_after_tool_call self event) of
        (self', event') \<Rightarrow>
          (case handle_tool_events self' events of
             (self'', events') \<Rightarrow> (self'', event' # events')))"

subsection \<open>Events of the unit tests\<close>

text \<open>The events that tests/strands/event\_loop/test\_tool\_retry.py builds: a tool call that
  raised, a tool call that succeeded, and a throttled model call.\<close>

definition failure_event :: "string \<Rightarrow> string \<Rightarrow> AfterToolCallEvent" where
  "failure_event tool_use_id tool_name = \<lparr>
     exception = Some (OtherException ''Exception'' ''Test error''),
     retry = False,
     tool_use = \<lparr>toolUseId = Some tool_use_id, name = Some tool_name\<rparr>,
     result = \<lparr>status = Some ''error'', content = Some [DictItem (Some ''Error'')]\<rparr> \<rparr>"

definition success_event :: "string \<Rightarrow> string \<Rightarrow> AfterToolCallEvent" where
  "success_event tool_use_id tool_name = \<lparr>
     exception = None,
     retry = False,
     tool_use = \<lparr>toolUseId = Some tool_use_id, name = Some tool_name\<rparr>,
     result = \<lparr>status = Some ''success'', content = Some [DictItem (Some ''Success'')]\<rparr> \<rparr>"

definition throttled_event :: AfterModelCallEvent where
  "throttled_event = \<lparr>
     exception = Some (ModelThrottledException ''Throttled''),
     retry = False,
     stop_response = None \<rparr>"

text \<open>A tool call that returned an error status without raising; its \<open>content\<close> holds
  entries without text before the first textual one.\<close>

definition error_status_event :: "string \<Rightarrow> string \<Rightarrow> AfterToolCallEvent" where
  "error_status_event tool_use_id tool_name = \<lparr>
     exception = None,
     retry = False,
     tool_use = \<lparr>toolUseId = Some tool_use_id, name = Some tool_name\<rparr>,
     result = \<lparr>status = Some ''error'',
               content = Some [NonDictItem, DictItem None, DictItem (Some ''Permanent error''),
                               DictItem (Some ''later'')]\<rparr> \<rparr>"

text \<open>A tool call that raised and whose \<open>tool_use\<close> has no \<open>toolUseId\<close> entry.\<close>

definition failure_without_id :: "string \<Rightarrow> AfterToolCallEvent" where
  "failure_without_id tool_name = \<lparr>
     exception = Some (OtherException ''Exception'' ''Test error''),
     retry = False,
     tool_use = \<lparr>toolUseId = None, name = Some tool_name\<rparr>,
     result = \<lparr>status = Some ''error'', content = Some [DictItem (Some ''Error'')]\<rparr> \<rparr>"

text \<open>A \<open>should_retry\<close> predicate that refuses one particular error.\<close>

definition never_on_permanent :: "py_exception \<Rightarrow> bool" where
  "never_on_permanent e = (e \<noteq> RuntimeError ''Permanent error'')"

section \<open>Verification\<close>

subsection \<open>The paths of the tool handler\<close>

lemmas tool_defs = handle_after_tool_call_def Let_def tool_use_id_of_def tool_name_of_def
  is_tool_retry_enabled_def get_tool_config_def is_tool_error_result_def
  get_tool_error_for_predicate_def predicate_rejects_def calculate_tool_delay_def
  float_times_pow2_def py_pow2_def

lemmas init_defs = init_def init_fields_def default_kwargs_def set_if_truthy_def

lemmas event_defs = failure_event_def success_event_def throttled_event_def


lemma handle_after_tool_call_failure:
  assumes "\<not> retry event"
    and "is_tool_retry_enabled self (tool_name_of event)"
    and "is_tool_error_result event"
    and "\<not> predicate_rejects self (get_tool_error_for_predicate event)"
    and "get_tool_config self (tool_name_of event) = (m, i, d)"
  shows "handle_after_tool_call self event =
     (let n = (case tool_attempts self (tool_use_id_of event) of None \<Rightarrow> 0 | Some c \<Rightarrow> c) + 1;
          self' = self\<lparr>tool_attempts := (tool_attempts self)(tool_use_id_of event \<mapsto> n)\<rparr>
      in if n \<ge> m then Done (self', event)
         else if 1024 \<le> n - 1 then
           Raised (OverflowError ''int too large to convert to float'') (self', event)
         else Sleep (min (i * py_pow2 (n - 1)) d) (self', event)
                (\<lambda>(self, event). (self, event\<lparr>retry := True\<rparr>)))"
  using assms
  by (simp add: handle_after_tool_call_def Let_def calculate_tool_delay_def
        float_times_pow2_def)

lemma handle_after_tool_call_retrying:
  "retry event \<Longrightarrow> handle_after_tool_call self event = Done (self, event)"
  by (simp add: handle_after_tool_call_def Let_def)

lemma handle_after_tool_call_disabled:
  "\<not> is_tool_retry_enabled self (tool_name_of event) \<Longrightarrow>
     handle_after_tool_call self event = Done (self, event)"
  by (simp add: handle_after_tool_call_def Let_def)

lemma handle_after_tool_call_success:
  assumes "\<not> retry event"
    and "is_tool_retry_enabled self (tool_name_of event)"
    and "\<not> is_tool_error_result event"
  shows "handle_after_tool_call self event =
     Done (self\<lparr>tool_attempts := (tool_attempts self)(tool_use_id_of event := None)\<rparr>, event)"
  using assms
  by (cases "get_tool_config self (tool_name_of event)")
     (simp add: handle_after_tool_call_def Let_def)

lemma handle_after_tool_call_rejected:
  assumes "is_tool_error_result event"
    and "predicate_rejects self (get_tool_error_for_predicate event)"
  shows "handle_after_tool_call self event = Done (self, event)"
  using assms
  by (cases "get_tool_config self (tool_name_of event)")
     (simp add: handle_after_tool_call_def Let_def)

lemma handle_after_tool_call_cases:
  obtains (unchanged) "run_to_completion (handle_after_tool_call self event) = (self, event)"
  | (success) "\<not> retry event" "is_tool_retry_enabled self (tool_name_of event)"
      "\<not> is_tool_error_result event"
      "run_to_completion (handle_after_tool_call self event) =
         (self\<lparr>tool_attempts := (tool_attempts self)(tool_use_id_of event := None)\<rparr>, event)"
  | (failure) m i d where "\<not> retry event" "is_tool_retry_enabled self (tool_name_of event)"
      "is_tool_error_result event"
      "\<not> predicate_rejects self (get_tool_error_for_predicate event)"
      "get_tool_config self (tool_name_of event) = (m, i, d)"
      "run_to_completion (handle_after_tool_call self event) =
         (self\<lparr>tool_attempts := (tool_attempts self)(tool_use_id_of event \<mapsto>
            (case tool_attempts self (tool_use_id_of event) of None \<Rightarrow> 0 | Some c \<Rightarrow> c) + 1)\<rparr>,
          event\<lparr>retry :=
                  (case tool_attempts self (tool_use_id_of event) of None \<Rightarrow> 0 | Some c \<Rightarrow> c) + 1 < m
                  \<and> (case tool_attempts self (tool_use_id_of event) of None \<Rightarrow> 0 | Some c \<Rightarrow> c)
                      < 1024\<rparr>)"
proof (cases "retry event")
  case True
  then show ?thesis using unchanged handle_after_tool_call_retrying [of event self] by simp
next
  case r: False
  show ?thesis
  proof (cases "is_tool_retry_enabled self (tool_name_of event)")
    case False
    then show ?thesis using unchanged handle_after_tool_call_disabled [of self event] by simp
  next
    case e: True
    show ?thesis
    proof (cases "is_tool_error_result event")
      case False
      then show ?thesis using success r e handle_after_tool_call_success [OF r e] by simp
    next
      case f: True
      show ?thesis
      proof (cases "predicate_rejects self (get_tool_error_for_predicate event)")
        case True
        then show ?thesis using unchanged handle_after_tool_call_rejected [OF f, of self] by simp
      next
        case p: False
        obtain m i d where c: "get_tool_config self (tool_name_of event) = (m, i, d)"
          by (cases "get_tool_config self (tool_name_of event)")
        have "run_to_completion (handle_after_tool_call self event) =
         (self\<lparr>tool_attempts := (tool_attempts self)(tool_use_id_of event \<mapsto>
            (case tool_attempts self (tool_use_id_of event) of None \<Rightarrow> 0 | Some c \<Rightarrow> c) + 1)\<rparr>,
          event\<lparr>retry :=
                  (case tool_attempts self (tool_use_id_of event) of None \<Rightarrow> 0 | Some c \<Rightarrow> c) + 1 < m
                  \<and> (case tool_attempts self (tool_use_id_of event) of None \<Rightarrow> 0 | Some c \<Rightarrow> c)
                      < 1024\<rparr>)"
          using r handle_after_tool_call_failure [OF r e f p c] by (auto simp add: Let_def)
        then show ?thesis using failure r e f p c by blast
      qed
    qed
  qed
qed

lemma handle_after_tool_call_frame:
  "fst (run_to_completion (handle_after_tool_call self event)) =
     self\<lparr>tool_attempts :=
            tool_attempts (fst (run_to_completion (handle_after_tool_call self event)))\<rparr>"
  by (cases self event rule: handle_after_tool_call_cases) simp_all

lemma handle_after_tool_call_other_ids:
  "k \<noteq> tool_use_id_of event \<Longrightarrow>
     tool_attempts (fst (run_to_completion (handle_after_tool_call self event))) k =
       tool_attempts self k"
  by (cases self event rule: handle_after_tool_call_cases) simp_all

lemma tool_attempts_irrelevant [simp]:
  "is_tool_retry_enabled (self\<lparr>tool_attempts := a\<rparr>) n = is_tool_retry_enabled self n"
  "get_tool_config (self\<lparr>tool_attempts := a\<rparr>) n = get_tool_config self n"
  "predicate_rejects (self\<lparr>tool_attempts := a\<rparr>) e = predicate_rejects self e"
  by (simp_all add: is_tool_retry_enabled_def get_tool_config_def predicate_rejects_def Let_def
        split: option.splits)


lemma find_error_text_first:
  "find_error_text c = (case [t. DictItem (Some t) \<leftarrow> c] of [] \<Rightarrow> '''' | t # rest \<Rightarrow> t)"
  by (induction c rule: find_error_text.induct) simp_all

lemma error_text_or_default:
  "(if find_error_text c \<noteq> '''' then find_error_text c else fallback) =
     (case [t. DictItem (Some t) \<leftarrow> c] of
        [] \<Rightarrow> fallback
      | t # rest \<Rightarrow> if t = '''' then fallback else t)"
proof -
  have "(if (case xs of [] \<Rightarrow> '''' | t # rest \<Rightarrow> t) \<noteq> ''''
         then (case xs of [] \<Rightarrow> '''' | t # rest \<Rightarrow> t) else fallback) =
        (case xs of [] \<Rightarrow> fallback | t # rest \<Rightarrow> if t = '''' then fallback else t)"
    for xs :: "string list"
    by (cases xs) simp_all
  then show ?thesis unfolding find_error_text_first .
qed

lemma get_tool_error_for_predicate_failure:
  assumes "is_tool_error_result event"
  shows "get_tool_error_for_predicate event =
     Some (case exception event of
              Some e \<Rightarrow> e
            | None \<Rightarrow>
                RuntimeError
                  (case [t. DictItem (Some t) \<leftarrow>
                            (case content (result event) of None \<Rightarrow> [] | Some c \<Rightarrow> c)] of
                     [] \<Rightarrow> ''Tool returned error status''
                   | t # rest \<Rightarrow> if t = '''' then ''Tool returned error status'' else t))"
proof (cases "exception event")
  case None
  then have "status (result event) = Some ''error''"
    using assms by (simp add: is_tool_error_result_def split: if_splits)
  then show ?thesis
    using None
    by (simp only: get_tool_error_for_predicate_def Let_def error_text_or_default
          option.case refl if_True)
next
  case (Some e)
  then show ?thesis by (simp add: get_tool_error_for_predicate_def)
qed

lemma exhausted_step:
  assumes "tool_attempts self tid = Some n" and "M \<le> n"
    and "tool_use_id_of event = tid \<longrightarrow>
           is_tool_error_result event \<and> fst (get_tool_config self (tool_name_of event)) \<le> M"
  shows "(\<exists>n'. tool_attempts (fst (run_to_completion (handle_after_tool_call self event))) tid
                 = Some n' \<and> n \<le> n')
       \<and> (tool_use_id_of event = tid \<longrightarrow>
            retry (snd (run_to_completion (handle_after_tool_call self event))) = retry event)"
proof (cases self event rule: handle_after_tool_call_cases)
  case unchanged
  then show ?thesis using assms(1) by simp
next
  case success
  then have "tool_use_id_of event \<noteq> tid" using assms(3) by blast
  then show ?thesis using success(4) assms(1) by simp
next
  case (failure m i d)
  show ?thesis
  proof (cases "tool_use_id_of event = tid")
    case True
    then have "m \<le> n" using assms(2,3) failure(5) by simp
    then show ?thesis using True failure(1,6) assms(1) by simp
  next
    case False
    then show ?thesis using failure(6) assms(1) by simp
  qed
qed

lemma exhausted_run:
  assumes "tool_attempts self tid = Some n" and "M \<le> n"
    and "\<forall>event \<in> set events. tool_use_id_of event = tid \<longrightarrow>
           is_tool_error_result event \<and> fst (get_tool_config self (tool_name_of event)) \<le> M"
  shows "list_all2 (\<lambda>event event'. tool_use_id_of event = tid \<longrightarrow> retry event' = retry event)
           events (snd (handle_tool_events self events))
       \<and> (\<exists>n'. tool_attempts (fst (handle_tool_events self events)) tid = Some n' \<and> n \<le> n')"
  using assms
proof (induction events arbitrary: self n)
  case Nil
  then show ?case by simp
next
  case (Cons event events)
  obtain self' event' where h: "run_to_completion (handle_after_tool_call self event) = (self', event')"
    by (cases "run_to_completion (handle_after_tool_call self event)")
  have step: "(\<exists>n'. tool_attempts self' tid = Some n' \<and> n \<le> n')
       \<and> (tool_use_id_of event = tid \<longrightarrow> retry event' = retry event)"
    using exhausted_step [OF Cons.prems(1,2), of event] Cons.prems(3) h by simp
  then obtain n' where n': "tool_attempts self' tid = Some n'" "n \<le> n'" by blast
  have frame: "self' = self\<lparr>tool_attempts := tool_attempts self'\<rparr>"
    using handle_after_tool_call_frame [of self event] h by simp
  have cfg: "\<forall>e \<in> set events. tool_use_id_of e = tid \<longrightarrow>
           is_tool_error_result e \<and> fst (get_tool_config self' (tool_name_of e)) \<le> M"
  proof
    fix e assume "e \<in> set events"
    then have "tool_use_id_of e = tid \<longrightarrow>
           is_tool_error_result e \<and> fst (get_tool_config self (tool_name_of e)) \<le> M"
      using Cons.prems(3) by simp
    moreover have "get_tool_config self' (tool_name_of e) = get_tool_config self (tool_name_of e)"
      by (subst frame) simp
    ultimately show "tool_use_id_of e = tid \<longrightarrow>
           is_tool_error_result e \<and> fst (get_tool_config self' (tool_name_of e)) \<le> M"
      by simp
  qed
  have "M \<le> n'" using Cons.prems(2) n'(2) by simp
  from Cons.IH [OF n'(1) this cfg] obtain n'' where
    rest: "list_all2 (\<lambda>event event'. tool_use_id_of event = tid \<longrightarrow> retry event' = retry event)
           events (snd (handle_tool_events self' events))"
    and n'': "tool_attempts (fst (handle_tool_events self' events)) tid = Some n''" "n' \<le> n''"
    by blast
  obtain self'' events' where t: "handle_tool_events self' events = (self'', events')"
    by (cases "handle_tool_events self' events")
  have "n \<le> n''" using n'(2) n''(2) by simp
  then show ?case using h t step rest n''(1) by simp
qed

lemma tool_retry_set_only_if_enabled:
  assumes "\<not> retry event"
    and "retry (snd (run_to_completion (handle_after_tool_call self event)))"
  shows "is_tool_retry_enabled self (tool_name_of event)"
  using assms by (cases self event rule: handle_after_tool_call_cases) simp_all

subsection \<open>The paths of the model handler\<close>


lemma handle_after_model_call_throttled:
  assumes "\<not> retry event" and "stop_response event = None"
    and "exception event = Some (ModelThrottledException msg)"
  shows "handle_after_model_call self event =
     (if model_current_attempt self \<ge> model_max_attempts self then Done (self, event)
      else if 1024 \<le> model_current_attempt self then
        Raised (OverflowError ''int too large to convert to float'') (self, event)
      else Sleep (min (model_initial_delay self * py_pow2 (model_current_attempt self))
                      (model_max_delay self))
             (self, event)
             (\<lambda>(self', event').
                (self'\<lparr>backwards_compatible_event_to_yield :=
                          Some (EventLoopThrottleEvent
                                  (py_int (min (model_initial_delay self
                                                  * py_pow2 (model_current_attempt self))
                                               (model_max_delay self)))),
                        model_current_attempt := model_current_attempt self' + 1\<rparr>,
                 event'\<lparr>retry := True\<rparr>)))"
  using assms
  by (simp add: handle_after_model_call_def calculate_model_delay_def Let_def
        float_times_pow2_def)

lemma handle_after_model_call_retrying:
  "retry event \<Longrightarrow> handle_after_model_call self event = Done (self, event)"
  by (simp add: handle_after_model_call_def)

lemma handle_after_model_call_not_throttled:
  assumes "\<not> retry event"
    and "stop_response event \<noteq> None \<or> \<not> is_ModelThrottledException (exception event)"
  shows "handle_after_model_call self event =
     Done (self\<lparr>model_current_attempt := 0,
                backwards_compatible_event_to_yield := None\<rparr>, event)"
proof (cases "stop_response event = None")
  case True
  then have "\<not> is_ModelThrottledException (exception event)" using assms(2) by simp
  then show ?thesis using assms(1) True by (simp add: handle_after_model_call_def)
next
  case False
  then show ?thesis using assms(1) by (simp add: handle_after_model_call_def)
qed

lemma is_ModelThrottledException_iff:
  "is_ModelThrottledException e = (\<exists>msg. e = Some (ModelThrottledException msg))"
  by (cases e rule: is_ModelThrottledException.cases) simp_all


subsection \<open>The overflow of the delay arithmetic\<close>

text \<open>
  Once the exponent reaches 1024 the delay cannot be computed and the handler raises
  \<open>OverflowError\<close> instead of sleeping. The tool handler has recorded the attempt by then;
  the model handler has changed nothing. In both the retry flag stays false.
\<close>

lemma tool_delay_overflow:
  assumes "\<not> retry event"
    and "is_tool_retry_enabled self (tool_name_of event)"
    and "is_tool_error_result event"
    and "\<not> predicate_rejects self (get_tool_error_for_predicate event)"
    and "get_tool_config self (tool_name_of event) = (m, i, d)"
    and "n = (case tool_attempts self (tool_use_id_of event) of None \<Rightarrow> 0 | Some c \<Rightarrow> c) + 1"
    and "n < m" and "1024 < n"
  shows "handle_after_tool_call self event =
           Raised (OverflowError ''int too large to convert to float'')
             (self\<lparr>tool_attempts := (tool_attempts self)(tool_use_id_of event \<mapsto> n)\<rparr>, event)"
  using handle_after_tool_call_failure [OF assms(1-5)] assms(6-8) by (simp add: Let_def)

lemma model_delay_overflow:
  assumes "\<not> retry event" and "stop_response event = None"
    and "exception event = Some (ModelThrottledException msg)"
    and "model_current_attempt self < model_max_attempts self"
    and "1024 \<le> model_current_attempt self"
  shows "handle_after_model_call self event =
           Raised (OverflowError ''int too large to convert to float'') (self, event)"
  using handle_after_model_call_throttled [OF assms(1-3), of self] assms(4,5) by simp

subsection \<open>The counters are never negative\<close>

text \<open>
  A new strategy has an empty attempt map and a model counter of 0; the handlers keep every
  recorded tool count at 1 or more and the model counter at 0 or more. So the exponents
  \<open>n - 1\<close> and \<open>counter\<close> of the delay formulas are natural numbers in every state that
  the handlers can reach.
\<close>

lemma init_fields_counters:
  "tool_attempts (init_fields kw) = Map.empty \<and> model_current_attempt (init_fields kw) = 0"
  by (simp add: init_fields_def)

lemma tool_attempts_stay_positive:
  assumes "\<forall>k c. tool_attempts self k = Some c \<longrightarrow> 1 \<le> c"
  shows "\<forall>k c. tool_attempts (fst (run_to_completion (handle_after_tool_call self event))) k
                   = Some c \<longrightarrow> 1 \<le> c"
proof (cases self event rule: handle_after_tool_call_cases)
  case unchanged
  then show ?thesis using assms by simp
next
  case success
  then show ?thesis using assms by simp
next
  case (failure m i d)
  have "0 \<le> (case tool_attempts self (tool_use_id_of event) of None \<Rightarrow> 0 | Some c \<Rightarrow> c)"
  proof (cases "tool_attempts self (tool_use_id_of event)")
    case None
    then show ?thesis by simp
  next
    case (Some c)
    then have "1 \<le> c" using assms by blast
    then show ?thesis using Some by simp
  qed
  then show ?thesis using failure(6) assms by simp
qed

lemma model_counter_stays_nonnegative:
  assumes "0 \<le> model_current_attempt self"
  shows "0 \<le> model_current_attempt
                  (fst (run_to_completion (handle_after_model_call self event)))"
proof (cases "retry event")
  case True
  then show ?thesis using assms handle_after_model_call_retrying [of event self] by simp
next
  case r: False
  show ?thesis
  proof (cases "stop_response event \<noteq> None \<or> \<not> is_ModelThrottledException (exception event)")
    case True
    then show ?thesis using handle_after_model_call_not_throttled [OF r, of self] by simp
  next
    case False
    then obtain msg where s: "stop_response event = None"
      and t: "exception event = Some (ModelThrottledException msg)"
      by (auto simp add: is_ModelThrottledException_iff)
    show ?thesis
      using assms handle_after_model_call_throttled [OF r s t, of self] by simp
  qed
qed

subsection \<open>Scenarios of the unit tests\<close>


subsection \<open>C1: a failure is counted, then backed off or given up\<close>



subsection \<open>C2: the model handler on a throttled call\<close>



subsection \<open>C3: what a cancellation during the sleep leaves behind\<close>




subsection \<open>C4: which tools are retried\<close>

text \<open>
  Claim C4 says that a tool outside a configured allow-list, the empty allow-list included,
  is never retried. The handler sets \<open>retry\<close> only when \<open>is_tool_retry_enabled\<close> holds
  (lemma \<open>tool_retry_set_only_if_enabled\<close>), but \<open>__init__\<close> stores an empty allow-list as
  \<open>None\<close>. Evaluated on the code: with \<open>tool_max_attempts=3\<close> and
  \<open>tool_enabled_tools=[]\<close> construction succeeds, the stored allow-list is \<open>None\<close>, and a
  failure of \<open>other_tool\<close>, which is not in the list, gets \<open>retry = True\<close>.
\<close>

theorem empty_allow_list_retries_every_tool:
  "init (default_kwargs\<lparr>tool_max_attempts_arg := 3, tool_enabled_tools_arg := Some []\<rparr>)
     = Inr (init_fields
              (default_kwargs\<lparr>tool_max_attempts_arg := 3, tool_enabled_tools_arg := Some []\<rparr>))
   \<and> tool_enabled_tools
         (init_fields
            (default_kwargs\<lparr>tool_max_attempts_arg := 3, tool_enabled_tools_arg := Some []\<rparr>))
       = None
   \<and> \<not> retry (failure_event ''id-1'' ''other_tool'')
   \<and> ''other_tool'' \<notin> set []
   \<and> retry (snd (run_to_completion
                   (handle_after_tool_call
                      (init_fields
                         (default_kwargs\<lparr>tool_max_attempts_arg := 3,
                                          tool_enabled_tools_arg := Some []\<rparr>))
                      (failure_event ''id-1'' ''other_tool''))))"
  by (simp add: init_defs tool_defs event_defs)

subsection \<open>C5: exhaustion is terminal\<close>

text \<open>
  Claim C5. Let the recorded attempt count of an identifier have reached the effective
  \<open>max_attempts\<close>. Then in every sequence of after-tool-call events that follows, in which
  the events for that identifier are failures (events for other identifiers are
  arbitrary), the handler never sets the retry flag of an event for that identifier: the
  flag leaves the handler as it entered, so an event that arrives with \<open>retry = False\<close>
  keeps it. The recorded count never falls below the value it had reached.
\<close>

theorem exhaustion_is_terminal:
  assumes "tool_attempts self tid = Some n"
    and "\<forall>event \<in> set events. tool_use_id_of event = tid \<longrightarrow>
           is_tool_error_result event \<and> fst (get_tool_config self (tool_name_of event)) \<le> n"
  shows "list_all2 (\<lambda>event event'. tool_use_id_of event = tid \<longrightarrow> retry event' = retry event)
           events (snd (handle_tool_events self events))
       \<and> (\<exists>n'. tool_attempts (fst (handle_tool_events self events)) tid = Some n' \<and> n \<le> n')"
  using exhausted_run [OF assms(1) order_refl assms(2)] .


theorem exhaustion_is_terminal_witness:
  "(let self = (init_fields (default_kwargs\<lparr>tool_max_attempts_arg := 2\<rparr>))
                 \<lparr>tool_attempts := [''id-1'' \<mapsto> 2]\<rparr>;
        events = [failure_event ''id-1'' ''test_tool'', failure_event ''id-2'' ''test_tool'',
                  failure_event ''id-1'' ''test_tool'']
    in tool_attempts self ''id-1'' = Some 2
       \<and> fst (get_tool_config self ''test_tool'') = 2
       \<and> \<not> retry (snd (handle_tool_events self events) ! 0)
       \<and> \<not> retry (snd (handle_tool_events self events) ! 2))"
proof -
  define self where "self = (init_fields (default_kwargs\<lparr>tool_max_attempts_arg := 2\<rparr>))
                 \<lparr>tool_attempts := [''id-1'' \<mapsto> 2]\<rparr>"
  define events where "events =
    [failure_event ''id-1'' ''test_tool'', failure_event ''id-2'' ''test_tool'',
     failure_event ''id-1'' ''test_tool'']"
  have a: "tool_attempts self ''id-1'' = Some 2" by (simp add: self_def)
  have c: "fst (get_tool_config self ''test_tool'') = 2"
    by (simp add: self_def init_defs get_tool_config_def)
  have n: "tool_name_of (failure_event i ''test_tool'') = ''test_tool''" for i
    by (simp add: tool_name_of_def failure_event_def)
  have f: "is_tool_error_result (failure_event i ''test_tool'')" for i
    by (simp add: is_tool_error_result_def failure_event_def)
  have h: "\<forall>event \<in> set events. tool_use_id_of event = ''id-1'' \<longrightarrow>
           is_tool_error_result event \<and> fst (get_tool_config self (tool_name_of event)) \<le> 2"
    by (simp add: events_def n f c)
  have l: "list_all2 (\<lambda>event event'. tool_use_id_of event = ''id-1'' \<longrightarrow> retry event' = retry event)
           events (snd (handle_tool_events self events))"
    using exhaustion_is_terminal [OF a h] by blast
  have "\<not> retry (snd (handle_tool_events self events) ! 0)"
    using list_all2_nthD [OF l, of 0]
    by (simp add: events_def tool_use_id_of_def failure_event_def)
  moreover have "\<not> retry (snd (handle_tool_events self events) ! 2)"
    using list_all2_nthD [OF l, of 2]
    by (simp add: events_def tool_use_id_of_def failure_event_def)
  ultimately show ?thesis
    using a c unfolding self_def [symmetric] events_def [symmetric] Let_def by simp
qed

subsection \<open>C6: a success clears the identifier's record\<close>

text \<open>
  Claim C6 says that every success event for an identifier with a failure record removes
  the record. The handler returns before the clean-up when the event's retry flag is
  already set: after one failure of \<open>id-1\<close> the count is 1, and a success event for
  \<open>id-1\<close> that arrives with \<open>retry = True\<close> leaves the count at 1.
\<close>

theorem claimed_success_keeps_the_record:
  "tool_attempts
     (fst (run_to_completion
             (handle_after_tool_call
                (init_fields (default_kwargs\<lparr>tool_max_attempts_arg := 3\<rparr>))
                (failure_event ''id-1'' ''tool1'')))) ''id-1'' = Some 1
   \<and> exception ((success_event ''id-1'' ''tool1'')\<lparr>retry := True\<rparr>) = None
   \<and> status (result ((success_event ''id-1'' ''tool1'')\<lparr>retry := True\<rparr>)) = Some ''success''
   \<and> tool_attempts
       (fst (run_to_completion
               (handle_after_tool_call
                  (fst (run_to_completion
                          (handle_after_tool_call
                             (init_fields (default_kwargs\<lparr>tool_max_attempts_arg := 3\<rparr>))
                             (failure_event ''id-1'' ''tool1''))))
                  ((success_event ''id-1'' ''tool1'')\<lparr>retry := True\<rparr>)))) ''id-1'' = Some 1"
  by (simp add: init_defs tool_defs event_defs)

text \<open>
  Claim C6, as the code has it. For an after-tool-call event whose retry flag is false on
  entry and whose tool has retries enabled, and which indicates success (no exception and
  a result status other than \<open>"error"\<close>), the handler removes exactly that identifier's
  entry from the attempt map and changes nothing else. For every event whatsoever, the
  attempt count of every other identifier is left as it was.
\<close>

theorem success_removes_only_its_record:
  "(\<not> retry event \<and> is_tool_retry_enabled self (tool_name_of event)
      \<and> exception event = None \<and> status (result event) \<noteq> Some ''error'' \<longrightarrow>
        handle_after_tool_call self event =
          Done (self\<lparr>tool_attempts := (tool_attempts self)(tool_use_id_of event := None)\<rparr>,
                event))
   \<and> (\<forall>k. k \<noteq> tool_use_id_of event \<longrightarrow>
         tool_attempts (fst (run_to_completion (handle_after_tool_call self event))) k
           = tool_attempts self k)"
proof -
  have "\<not> is_tool_error_result event"
    if "exception event = None" and "status (result event) \<noteq> Some ''error''"
    using that by (simp add: is_tool_error_result_def)
  then show ?thesis
    using handle_after_tool_call_success [of event self]
      handle_after_tool_call_other_ids [of _ event self]
    by blast
qed

theorem success_removes_only_its_record_witness:
  "(let self = (init_fields (default_kwargs\<lparr>tool_max_attempts_arg := 3\<rparr>))
                 \<lparr>tool_attempts := [''id-1'' \<mapsto> 1, ''id-2'' \<mapsto> 1]\<rparr>;
        event = success_event ''id-1'' ''tool1''
    in \<not> retry event \<and> is_tool_retry_enabled self (tool_name_of event)
       \<and> exception event = None \<and> status (result event) \<noteq> Some ''error''
       \<and> ''id-2'' \<noteq> tool_use_id_of event
       \<and> tool_attempts (fst (run_to_completion (handle_after_tool_call self event))) ''id-1''
           = None
       \<and> tool_attempts (fst (run_to_completion (handle_after_tool_call self event))) ''id-2''
           = Some 1)"
proof -
  define self where "self = (init_fields (default_kwargs\<lparr>tool_max_attempts_arg := 3\<rparr>))
                 \<lparr>tool_attempts := [''id-1'' \<mapsto> 1, ''id-2'' \<mapsto> 1]\<rparr>"
  define event where "event = success_event ''id-1'' ''tool1''"
  have h: "\<not> retry event" "is_tool_retry_enabled self (tool_name_of event)"
    "exception event = None" "status (result event) \<noteq> Some ''error''"
    "tool_use_id_of event = ''id-1''"
    by (simp_all add: self_def event_def init_defs tool_defs event_defs)
  have a: "tool_attempts self ''id-2'' = Some 1" by (simp add: self_def)
  from success_removes_only_its_record [of event self] h a
  show ?thesis unfolding self_def [symmetric] event_def [symmetric] Let_def
    by simp
qed


subsection \<open>C7: the predicate gate\<close>

text \<open>
  Claim C7. For an after-tool-call failure event, when a \<open>should_retry\<close> predicate is
  configured and returns false for the derived error, the handler returns \<open>self\<close> and the
  event as they were: the retry flag is not set and the identifier's attempt count is not
  incremented. The derived error is the event's exception if there is one, and otherwise a
  \<open>RuntimeError\<close> whose message is the text of the first content entry that has a text, or
  \<open>"Tool returned error status"\<close> when there is no such entry or its text is empty.
\<close>

theorem rejected_failure_is_not_counted:
  assumes "is_tool_error_result event"
    and "tool_should_retry self = Some should_retry"
    and "derived =
           (case exception event of
              Some e \<Rightarrow> e
            | None \<Rightarrow>
                RuntimeError
                  (case [t. DictItem (Some t) \<leftarrow>
                            (case content (result event) of None \<Rightarrow> [] | Some c \<Rightarrow> c)] of
                     [] \<Rightarrow> ''Tool returned error status''
                   | t # rest \<Rightarrow> if t = '''' then ''Tool returned error status'' else t))"
    and "\<not> should_retry derived"
  shows "get_tool_error_for_predicate event = Some derived
     \<and> handle_after_tool_call self event = Done (self, event)
     \<and> retry (snd (run_to_completion (handle_after_tool_call self event))) = retry event
     \<and> tool_attempts (fst (run_to_completion (handle_after_tool_call self event)))
         = tool_attempts self"
proof -
  have d: "get_tool_error_for_predicate event = Some derived"
    using get_tool_error_for_predicate_failure [OF assms(1)] assms(3) by simp
  then have "predicate_rejects self (get_tool_error_for_predicate event)"
    using assms(2,4) by (simp add: predicate_rejects_def)
  from handle_after_tool_call_rejected [OF assms(1) this] d show ?thesis by simp
qed

theorem rejected_failure_is_not_counted_witness:
  "(let self = (init_fields (default_kwargs\<lparr>tool_max_attempts_arg := 3,
                  tool_should_retry_arg := Some never_on_permanent\<rparr>))
                 \<lparr>tool_attempts := [''id-1'' \<mapsto> 1]\<rparr>;
        event = error_status_event ''id-1'' ''test_tool''
    in is_tool_error_result event
       \<and> tool_should_retry self = Some never_on_permanent
       \<and> \<not> never_on_permanent (RuntimeError ''Permanent error'')
       \<and> get_tool_error_for_predicate event = Some (RuntimeError ''Permanent error'')
       \<and> \<not> retry (snd (run_to_completion (handle_after_tool_call self event)))
       \<and> tool_attempts (fst (run_to_completion (handle_after_tool_call self event))) ''id-1''
           = Some 1)"
proof -
  define self where "self = (init_fields (default_kwargs\<lparr>tool_max_attempts_arg := 3,
                  tool_should_retry_arg := Some never_on_permanent\<rparr>))
                 \<lparr>tool_attempts := [''id-1'' \<mapsto> 1]\<rparr>"
  define event where "event = error_status_event ''id-1'' ''test_tool''"
  have h1: "is_tool_error_result event"
    by (simp add: event_def error_status_event_def is_tool_error_result_def)
  have h2: "tool_should_retry self = Some never_on_permanent"
    by (simp add: self_def init_defs)
  have h3: "RuntimeError ''Permanent error'' =
           (case exception event of
              Some e \<Rightarrow> e
            | None \<Rightarrow>
                RuntimeError
                  (case [t. DictItem (Some t) \<leftarrow>
                            (case content (result event) of None \<Rightarrow> [] | Some c \<Rightarrow> c)] of
                     [] \<Rightarrow> ''Tool returned error status''
                   | t # rest \<Rightarrow> if t = '''' then ''Tool returned error status'' else t))"
    by (simp add: event_def error_status_event_def)
  have h4: "\<not> never_on_permanent (RuntimeError ''Permanent error'')"
    by (simp add: never_on_permanent_def)
  have r: "\<not> retry event" by (simp add: event_def error_status_event_def)
  have a: "tool_attempts self ''id-1'' = Some 1" by (simp add: self_def)
  from rejected_failure_is_not_counted [OF h1 h2 h3 h4] h1 h2 h4 r a
  show ?thesis unfolding self_def [symmetric] event_def [symmetric] Let_def
    by simp
qed

subsection \<open>C8: the reset at the end of an invocation\<close>

text \<open>
  Claim C8. After an after-invocation event, whatever the state was, the model attempt
  counter is 0, the cached throttle notification is cleared and the map of tool attempts
  is empty.
\<close>

theorem after_invocation_resets_state:
  "model_current_attempt (handle_after_invocation self event) = 0
   \<and> backwards_compatible_event_to_yield (handle_after_invocation self event) = None
   \<and> tool_attempts (handle_after_invocation self event) = Map.empty"
  by (simp add: handle_after_invocation_def reset_state_def)

subsection \<open>C9: the allow-list and the deny-list exclude each other\<close>

text \<open>
  Claim C9. Whatever the other arguments and whatever the two lists hold, construction
  with both an allow-list and a deny-list fails with the configuration error and yields no
  strategy, so no event is ever handled; construction without an allow-list, and
  construction without a deny-list, succeed.
\<close>

theorem both_lists_rejected_at_construction:
  "init (kw\<lparr>tool_enabled_tools_arg := Some enabled, tool_disabled_tools_arg := Some disabled\<rparr>)
     = Inl (ValueError ''Cannot specify both tool_enabled_tools and tool_disabled_tools'')
   \<and> init (kw\<lparr>tool_enabled_tools_arg := None\<rparr>)
       = Inr (init_fields (kw\<lparr>tool_enabled_tools_arg := None\<rparr>))
   \<and> init (kw\<lparr>tool_disabled_tools_arg := None\<rparr>)
       = Inr (init_fields (kw\<lparr>tool_disabled_tools_arg := None\<rparr>))"
  by (simp add: init_def)

subsection \<open>C10: tool calls without an identifier share a counter\<close>

text \<open>
  Claim C10. For an after-tool-call event whose \<open>tool_use\<close> has no \<open>toolUseId\<close> entry the
  correlation key is the empty string, and the handler touches no other key of the attempt
  map. Hence two such failures, whatever their tools, count on the same entry: after both,
  the entry under the empty string has grown by two, and whether the second call is retried
  is decided by the count that includes the first call's failure (it is retried when that
  count is below the effective \<open>max_attempts\<close> and the delay can be computed).
\<close>

theorem missing_tool_use_id_shares_one_counter:
  "(toolUseId (tool_use event) = None \<longrightarrow>
      tool_use_id_of event = ''''
      \<and> (\<forall>k. k \<noteq> '''' \<longrightarrow>
            tool_attempts (fst (run_to_completion (handle_after_tool_call self event))) k
              = tool_attempts self k))
   \<and> (toolUseId (tool_use event) = None \<and> toolUseId (tool_use event') = None
      \<and> \<not> retry event \<and> \<not> retry event'
      \<and> is_tool_retry_enabled self (tool_name_of event)
      \<and> is_tool_retry_enabled self (tool_name_of event')
      \<and> is_tool_error_result event \<and> is_tool_error_result event'
      \<and> \<not> predicate_rejects self (get_tool_error_for_predicate event)
      \<and> \<not> predicate_rejects self (get_tool_error_for_predicate event') \<longrightarrow>
        (let c = (case tool_attempts self '''' of None \<Rightarrow> 0 | Some c \<Rightarrow> c);
             self' = fst (run_to_completion (handle_after_tool_call self event));
             outcome = run_to_completion (handle_after_tool_call self' event')
         in tool_attempts self' '''' = Some (c + 1)
            \<and> tool_attempts (fst outcome) '''' = Some (c + 2)
            \<and> retry (snd outcome) =
                (c + 2 < fst (get_tool_config self (tool_name_of event')) \<and> c + 1 < 1024)))"
proof -
  have id: "tool_use_id_of e = ''''" if "toolUseId (tool_use e) = None" for e
    using that by (simp add: tool_use_id_of_def)
  have one: "run_to_completion (handle_after_tool_call s e) =
         (s\<lparr>tool_attempts := (tool_attempts s)('''' \<mapsto>
            (case tool_attempts s '''' of None \<Rightarrow> 0 | Some c \<Rightarrow> c) + 1)\<rparr>,
          e\<lparr>retry := (case tool_attempts s '''' of None \<Rightarrow> 0 | Some c \<Rightarrow> c) + 1
                          < fst (get_tool_config s (tool_name_of e))
                        \<and> (case tool_attempts s '''' of None \<Rightarrow> 0 | Some c \<Rightarrow> c) < 1024\<rparr>)"
    if "toolUseId (tool_use e) = None" "\<not> retry e" "is_tool_retry_enabled s (tool_name_of e)"
      "is_tool_error_result e" "\<not> predicate_rejects s (get_tool_error_for_predicate e)"
    for s e
  proof -
    obtain m i d where c: "get_tool_config s (tool_name_of e) = (m, i, d)"
      by (cases "get_tool_config s (tool_name_of e)")
    show ?thesis
      using handle_after_tool_call_failure [OF that(2-5) c] that(2) id [OF that(1)] c
      by (auto simp add: Let_def)
  qed
  have first: "toolUseId (tool_use event) = None \<longrightarrow>
      tool_use_id_of event = ''''
      \<and> (\<forall>k. k \<noteq> '''' \<longrightarrow>
            tool_attempts (fst (run_to_completion (handle_after_tool_call self event))) k
              = tool_attempts self k)"
    using id [of event] handle_after_tool_call_other_ids [of _ event self] by simp
  have second: "(let c = (case tool_attempts self '''' of None \<Rightarrow> 0 | Some c \<Rightarrow> c);
             self' = fst (run_to_completion (handle_after_tool_call self event));
             outcome = run_to_completion (handle_after_tool_call self' event')
         in tool_attempts self' '''' = Some (c + 1)
            \<and> tool_attempts (fst outcome) '''' = Some (c + 2)
            \<and> retry (snd outcome) =
                (c + 2 < fst (get_tool_config self (tool_name_of event')) \<and> c + 1 < 1024))"
    if h: "toolUseId (tool_use event) = None" "toolUseId (tool_use event') = None"
      "\<not> retry event" "\<not> retry event'"
      "is_tool_retry_enabled self (tool_name_of event)"
      "is_tool_retry_enabled self (tool_name_of event')"
      "is_tool_error_result event" "is_tool_error_result event'"
      "\<not> predicate_rejects self (get_tool_error_for_predicate event)"
      "\<not> predicate_rejects self (get_tool_error_for_predicate event')"
  proof -
    define c where "c = (case tool_attempts self '''' of None \<Rightarrow> 0 | Some c \<Rightarrow> c)"
    define self' where "self' = self\<lparr>tool_attempts := (tool_attempts self)('''' \<mapsto> c + 1)\<rparr>"
    have s1: "run_to_completion (handle_after_tool_call self event) =
                (self', event\<lparr>retry := c + 1 < fst (get_tool_config self (tool_name_of event))
                                       \<and> c < 1024\<rparr>)"
      using one [OF h(1,3,5,7,9)] by (simp add: c_def self'_def)
    have e': "is_tool_retry_enabled self' (tool_name_of event')"
      "\<not> predicate_rejects self' (get_tool_error_for_predicate event')"
      using h(6,10) by (simp_all add: self'_def)
    have s2: "run_to_completion (handle_after_tool_call self' event') =
                (self'\<lparr>tool_attempts := (tool_attempts self')('''' \<mapsto> c + 2)\<rparr>,
                 event'\<lparr>retry := c + 2 < fst (get_tool_config self (tool_name_of event'))
                                  \<and> c + 1 < 1024\<rparr>)"
      using one [OF h(2,4) e'(1) h(8) e'(2)] by (simp add: self'_def add.commute)
    show ?thesis
      unfolding Let_def c_def [symmetric] s1 fst_conv s2 snd_conv
      by (simp add: self'_def)
  qed
  from first second show ?thesis by blast
qed

theorem missing_tool_use_id_shares_one_counter_witness:
  "(let self = init_fields (default_kwargs\<lparr>tool_max_attempts_arg := 2\<rparr>);
        event = failure_without_id ''tool1'';
        event' = failure_without_id ''tool2'';
        self' = fst (run_to_completion (handle_after_tool_call self event));
        outcome = run_to_completion (handle_after_tool_call self' event')
    in toolUseId (tool_use event) = None \<and> toolUseId (tool_use event') = None
       \<and> \<not> retry event \<and> \<not> retry event'
       \<and> is_tool_retry_enabled self (tool_name_of event)
       \<and> is_tool_retry_enabled self (tool_name_of event')
       \<and> is_tool_error_result event \<and> is_tool_error_result event'
       \<and> \<not> predicate_rejects self (get_tool_error_for_predicate event)
       \<and> \<not> predicate_rejects self (get_tool_error_for_predicate event')
       \<and> tool_attempts self' '''' = Some 1
       \<and> tool_attempts (fst outcome) '''' = Some 2
       \<and> \<not> retry (snd outcome))"
proof -
  define self where "self = init_fields (default_kwargs\<lparr>tool_max_attempts_arg := 2\<rparr>)"
  have h: "toolUseId (tool_use (failure_without_id t)) = None"
    "\<not> retry (failure_without_id t)"
    "is_tool_retry_enabled self (tool_name_of (failure_without_id t))"
    "is_tool_error_result (failure_without_id t)"
    "\<not> predicate_rejects self (get_tool_error_for_predicate (failure_without_id t))" for t
    by (simp_all add: self_def failure_without_id_def init_defs tool_defs)
  have a: "tool_attempts self '''' = None" by (simp add: self_def init_defs)
  have c: "fst (get_tool_config self (tool_name_of (failure_without_id ''tool2''))) = 2"
    by (simp add: self_def failure_without_id_def init_defs tool_defs)
  from missing_tool_use_id_shares_one_counter
         [of "failure_without_id ''tool1''" self "failure_without_id ''tool2''"] h a c
  show ?thesis unfolding self_def [symmetric] Let_def by simp
qed


end
